theory Spec2Isabelle
  imports Main
begin

section \<open>The service layer: \<open>lbry/service/base.py\<close>\<close>

subsection \<open>Exceptions\<close>

text \<open>
  A raised Python exception object. The two handlers of \<open>base.py\<close> look at an exception
  in exactly two ways: \<open>except Exception\<close> asks whether it is an instance of class
  \<open>Exception\<close>, and \<open>isinstance(err, asyncio.CancelledError)\<close> asks whether it is a
  cancellation. Both answers are carried by the object, next to the name of its class.
  \<open>KeyboardInterrupt\<close>, \<open>SystemExit\<close> (and aiohttp's \<open>GracefulExit\<close>, which \<open>run\<close> raises)
  derive from \<open>BaseException\<close> only; \<open>asyncio.CancelledError\<close> is an \<open>Exception\<close> up to
  Python 3.7 and derives from \<open>BaseException\<close> only from 3.8 on.
\<close>

datatype py_exception =
  PyExc (exc_class: string) (is_Exception: bool) (is_CancelledError: bool)

definition NotImplementedError :: py_exception where
  "NotImplementedError = PyExc ''NotImplementedError'' True False"

definition AttributeError :: py_exception where
  "AttributeError = PyExc ''AttributeError'' True False"

definition KeyboardInterrupt :: py_exception where
  "KeyboardInterrupt = PyExc ''KeyboardInterrupt'' False False"

definition CancelledError_py37 :: py_exception where
  "CancelledError_py37 = PyExc ''CancelledError'' True True"

definition CancelledError_py38 :: py_exception where
  "CancelledError_py38 = PyExc ''CancelledError'' False True"

subsection \<open>Transactions and outputs\<close>

text \<open>
  Of \<open>Output\<close> the service reads \<open>claim_id\<close>; \<open>txo_key\<close> stands for the rest of the object, so
  that two outputs of one claim can differ. A transaction input \<open>txi\<close> is read through
  \<open>txi.txo_ref.txo\<close>.
\<close>

record Output =
  claim_id :: string
  txo_key :: nat

record txo_reference =
  txo :: Output

record tx_input =
  txo_ref :: txo_reference

record Transaction =
  inputs :: "tx_input list"
  tx_key :: nat

subsection \<open>The collaborators and the observable effects\<close>

text \<open>
  \<open>Service\<close> is a base class: \<open>broadcast\<close>, \<open>wait\<close> and the claim search are supplied by
  the light client or the full node, \<open>release_outputs\<close> by the database. They are
  parameters of the model: each takes the state of the outside world \<open>'w\<close> and returns
  the new one with either a raised exception (\<open>Inl\<close>) or its value (\<open>Inr\<close>). Every call
  the service makes to one of them is appended to a trace, so that the order of the calls
  can be stated.

  \<open>resolve_collection\<close> calls \<open>self.claim_search\<close>, which class \<open>Service\<close> does not define
  (it declares \<open>search_claims\<close>): \<open>claim_search_impl\<close> is \<open>None\<close> for a class without the
  attribute and \<open>Some\<close> of the method for a class that has it.
\<close>

datatype event =
  Broadcast Transaction
  | Wait Transaction int "int option"
  | ReleaseOutputs "Output list"
  | ClaimSearch "string list"
  | LogException string

record ('w, 'r) collaborators =
  broadcast_impl :: "Transaction \<Rightarrow> 'w \<Rightarrow> (py_exception + unit) \<times> 'w"
  wait_impl :: "Transaction \<Rightarrow> int \<Rightarrow> int option \<Rightarrow> 'w \<Rightarrow> (py_exception + unit) \<times> 'w"
  release_outputs_impl :: "Output list \<Rightarrow> 'w \<Rightarrow> (py_exception + 'r) \<times> 'w"
  claim_search_impl ::
    "(string list \<Rightarrow> 'w \<Rightarrow> (py_exception + (Output list \<times> nat \<times> nat \<times> nat)) \<times> 'w)
      option"

record 'w service_state =
  trace :: "event list"
  world :: 'w

definition call ::
  "event \<Rightarrow> ('w \<Rightarrow> (py_exception + 'a) \<times> 'w) \<Rightarrow> 'w service_state
    \<Rightarrow> (py_exception + 'a) \<times> 'w service_state" where
  "call ev f s =
     (case f (world s) of
        (r, w') \<Rightarrow> (r, s\<lparr>trace := trace s @ [ev], world := w'\<rparr>))"

text \<open>\<open>def release_outputs(self, txos): return self.db.release_outputs(txos)\<close>\<close>

definition release_outputs ::
  "('w, 'r) collaborators \<Rightarrow> Output list \<Rightarrow> 'w service_state
    \<Rightarrow> (py_exception + 'r) \<times> 'w service_state" where
  "release_outputs c txos = call (ReleaseOutputs txos) (release_outputs_impl c txos)"

text \<open>
  \<open>def release_tx(self, tx):
      return self.release_outputs([txi.txo_ref.txo for txi in tx.inputs])\<close>;
  \<open>input_txos\<close> is the list comprehension.
\<close>

definition input_txos :: "Transaction \<Rightarrow> Output list" where
  "input_txos tx = map (\<lambda>txi. txo (txo_ref txi)) (inputs tx)"

definition release_tx ::
  "('w, 'r) collaborators \<Rightarrow> Transaction \<Rightarrow> 'w service_state
    \<Rightarrow> (py_exception + 'r) \<times> 'w service_state" where
  "release_tx c tx = release_outputs c (input_txos tx)"

definition broadcast ::
  "('w, 'r) collaborators \<Rightarrow> Transaction \<Rightarrow> 'w service_state
    \<Rightarrow> (py_exception + unit) \<times> 'w service_state" where
  "broadcast c tx = call (Broadcast tx) (broadcast_impl c tx)"

text \<open>\<open>async def wait(self, tx: Transaction, height=-1, timeout=1)\<close>\<close>

definition wait ::
  "('w, 'r) collaborators \<Rightarrow> Transaction \<Rightarrow> int \<Rightarrow> int option \<Rightarrow> 'w service_state
    \<Rightarrow> (py_exception + unit) \<times> 'w service_state" where
  "wait c tx height timeout = call (Wait tx height timeout) (wait_impl c tx height timeout)"

subsection \<open>\<open>Service.maybe_broadcast_or_release\<close>\<close>

text \<open>
  \<^verbatim>\<open>
  async def maybe_broadcast_or_release(self, tx, blocking=False, preview=False):
      if preview:
          return await self.release_tx(tx)
      try:
          await self.broadcast(tx)
          if blocking:
              await self.wait(tx, timeout=None)
      except Exception:
          await self.release_tx(tx)
          raise
  \<close>
  The value is \<open>Some r\<close> for what \<open>release_tx\<close> returned under \<open>preview\<close>, and \<open>None\<close> for
  the implicit \<open>None\<close> at the end of the function.

  \<open>on_exception\<close> is the \<open>except Exception\<close> clause: an exception that is no instance of
  \<open>Exception\<close> passes it untouched; otherwise \<open>release_tx\<close> is awaited, and the bare
  \<open>raise\<close> is reached only when that returns. An exception raised by \<open>release_tx\<close>
  inside the handler leaves the function in place of the first one.
\<close>

definition on_exception ::
  "('w, 'r) collaborators \<Rightarrow> Transaction \<Rightarrow> py_exception \<Rightarrow> 'w service_state
    \<Rightarrow> (py_exception + 'r option) \<times> 'w service_state" where
  "on_exception c tx e s =
     (if is_Exception e then
        (case release_tx c tx s of
           (Inl e', s') \<Rightarrow> (Inl e', s')
         | (Inr _, s') \<Rightarrow> (Inl e, s'))
      else (Inl e, s))"

definition maybe_broadcast_or_release ::
  "('w, 'r) collaborators \<Rightarrow> Transaction \<Rightarrow> bool \<Rightarrow> bool \<Rightarrow> 'w service_state
    \<Rightarrow> (py_exception + 'r option) \<times> 'w service_state" where
  "maybe_broadcast_or_release c tx blocking preview s =
     (if preview then
        (case release_tx c tx s of
           (Inl e, s') \<Rightarrow> (Inl e, s')
         | (Inr r, s') \<Rightarrow> (Inr (Some r), s'))
      else
        (case broadcast c tx s of
           (Inl e, s1) \<Rightarrow> on_exception c tx e s1
         | (Inr _, s1) \<Rightarrow>
             (if blocking then
                (case wait c tx (- 1) None s1 of
                   (Inl e, s2) \<Rightarrow> on_exception c tx e s2
                 | (Inr _, s2) \<Rightarrow> (Inr None, s2))
              else (Inr None, s1))))"

subsection \<open>\<open>Service.resolve_collection\<close>\<close>

text \<open>
  Python's \<open>xs[a:b]\<close> on a list, for integer bounds: a negative bound counts from the
  end, and both are clamped to the list.
\<close>

definition slice_bound :: "nat \<Rightarrow> int \<Rightarrow> nat" where
  "slice_bound n i = (if i < 0 then nat (max 0 (int n + i)) else min n (nat i))"

definition py_slice :: "'a list \<Rightarrow> int \<Rightarrow> int \<Rightarrow> 'a list" where
  "py_slice xs a b =
     (let lo = slice_bound (length xs) a; hi = slice_bound (length xs) b
      in take (hi - lo) (drop lo xs))"

text \<open>
  The inner loop: the first \<open>txo\<close> of \<open>resolve_results\<close> with \<open>txo.claim_id == claim_id\<close>
  is appended and the loop left; \<open>None\<close> is appended when the loop ends with \<open>found\<close>
  still false.
\<close>

fun first_with_claim_id :: "string \<Rightarrow> Output list \<Rightarrow> Output option" where
  "first_with_claim_id cid [] = None"
| "first_with_claim_id cid (t # ts) =
     (if claim_id t = cid then Some t else first_with_claim_id cid ts)"

text \<open>The outer loop over \<open>claim_ids\<close>, appending to \<open>claims\<close>.\<close>

fun collect_claims ::
  "string list \<Rightarrow> Output list \<Rightarrow> Output option list \<Rightarrow> Output option list" where
  "collect_claims [] resolve_results claims = claims"
| "collect_claims (cid # cids) resolve_results claims =
     collect_claims cids resolve_results (claims @ [first_with_claim_id cid resolve_results])"

text \<open>
  \<open>await self.claim_search([], claim_ids=claim_ids)\<close>: looking the attribute up raises
  \<open>AttributeError\<close> where the class has none, and no call is made; otherwise the
  method is called.
\<close>

definition claim_search ::
  "('w, 'r) collaborators \<Rightarrow> string list \<Rightarrow> 'w service_state
    \<Rightarrow> (py_exception + (Output list \<times> nat \<times> nat \<times> nat)) \<times> 'w service_state" where
  "claim_search c claim_ids s =
     (case claim_search_impl c of
        None \<Rightarrow> (Inl AttributeError, s)
      | Some f \<Rightarrow> call (ClaimSearch claim_ids) (f claim_ids) s)"

text \<open>
  \<^verbatim>\<open>
  async def resolve_collection(self, collection, offset=0, page_size=1):
      claim_ids = collection.claim.collection.claims.ids[offset:page_size+offset]
      try:
          resolve_results, _, _, _ = await self.claim_search([], claim_ids=claim_ids)
      except Exception as err:
          if isinstance(err, asyncio.CancelledError):
              raise
          log.exception("Resolve failed while looking up collection claim ids:")
          return []
      claims = []
      for claim_id in claim_ids:
          ...
      return claims
  \<close>
  \<open>ids\<close> is \<open>collection.claim.collection.claims.ids\<close>.
\<close>

definition resolve_collection ::
  "('w, 'r) collaborators \<Rightarrow> string list \<Rightarrow> int \<Rightarrow> int \<Rightarrow> 'w service_state
    \<Rightarrow> (py_exception + Output option list) \<times> 'w service_state" where
  "resolve_collection c ids offset page_size s =
     (let claim_ids = py_slice ids offset (page_size + offset) in
      case claim_search c claim_ids s of
        (Inl err, s') \<Rightarrow>
          (if is_Exception err then
             (if is_CancelledError err then (Inl err, s')
              else (Inr [],
                    s'\<lparr>trace := trace s' @
                      [LogException ''Resolve failed while looking up collection claim ids:'']\<rparr>))
           else (Inl err, s'))
      | (Inr (resolve_results, _), s') \<Rightarrow>
          (Inr (collect_claims claim_ids resolve_results []), s'))"

subsection \<open>Concrete services and inputs\<close>

text \<open>
  \<open>base_service\<close> is class \<open>Service\<close> itself, with nothing overridden: \<open>broadcast\<close> and
  \<open>wait\<close> raise \<open>NotImplementedError\<close>, and the class has no attribute
  \<open>claim_search\<close>. Its database counts the outputs it has released.
  The other services override single methods.
\<close>

definition TimeoutError :: py_exception where
  "TimeoutError = PyExc ''TimeoutError'' True False"

definition OperationalError :: py_exception where
  "OperationalError = PyExc ''OperationalError'' True False"

definition base_service :: "(nat, nat) collaborators" where
  "base_service = \<lparr>
     broadcast_impl = (\<lambda>tx w. (Inl NotImplementedError, w)),
     wait_impl = (\<lambda>tx h t w. (Inl NotImplementedError, w)),
     release_outputs_impl = (\<lambda>txos w. (Inr (length txos), w + length txos)),
     claim_search_impl = None\<rparr>"

definition slow_node :: "(nat, nat) collaborators" where
  "slow_node = base_service\<lparr>
     broadcast_impl := (\<lambda>tx w. (Inr (), w)),
     wait_impl := (\<lambda>tx h t w. (Inl TimeoutError, w))\<rparr>"

definition interrupted_node :: "(nat, nat) collaborators" where
  "interrupted_node = base_service\<lparr>
     broadcast_impl := (\<lambda>tx w. (Inl KeyboardInterrupt, w)),
     claim_search_impl := Some (\<lambda>ids w. (Inl KeyboardInterrupt, w))\<rparr>"

definition locked_db_node :: "(nat, nat) collaborators" where
  "locked_db_node = base_service\<lparr>
     release_outputs_impl := (\<lambda>txos w. (Inl OperationalError, w))\<rparr>"

definition cancelled_node :: "py_exception \<Rightarrow> (nat, nat) collaborators" where
  "cancelled_node e = base_service\<lparr>
     broadcast_impl := (\<lambda>tx w. (Inl e, w)),
     claim_search_impl := Some (\<lambda>ids w. (Inl e, w))\<rparr>"

definition txo_a :: Output where
  "txo_a = \<lparr>claim_id = ''a'', txo_key = 1\<rparr>"

definition txo_b :: Output where
  "txo_b = \<lparr>claim_id = ''b'', txo_key = 2\<rparr>"

definition txo_a2 :: Output where
  "txo_a2 = \<lparr>claim_id = ''a'', txo_key = 3\<rparr>"

definition indexing_node :: "(nat, nat) collaborators" where
  "indexing_node = base_service\<lparr>
     claim_search_impl := Some (\<lambda>ids w. (Inr ([txo_b, txo_a, txo_a2], 3, 0, 0), w))\<rparr>"

definition tx0 :: Transaction where
  "tx0 = \<lparr>inputs = [\<lparr>txo_ref = \<lparr>txo = txo_a\<rparr>\<rparr>, \<lparr>txo_ref = \<lparr>txo = txo_b\<rparr>\<rparr>],
          tx_key = 7\<rparr>"

definition s0 :: "nat service_state" where
  "s0 = \<lparr>trace = [], world = 0\<rparr>"

section \<open>Properties of the service layer\<close>

subsection \<open>Calls and their traces\<close>

lemmas call_defs = call_def broadcast_def wait_def release_tx_def release_outputs_def
  claim_search_def input_txos_def

lemma call_trace: "trace (snd (call ev f s)) = trace s @ [ev]"
  by (simp add: call_def split: prod.splits)

lemma release_tx_trace:
  "trace (snd (release_tx c tx s)) = trace s @ [ReleaseOutputs (input_txos tx)]"
  by (simp add: release_tx_def release_outputs_def call_trace)

lemma broadcast_trace: "broadcast c tx s = (r, s1) \<Longrightarrow> trace s1 = trace s @ [Broadcast tx]"
  using call_trace [of "Broadcast tx" "broadcast_impl c tx" s] by (simp add: broadcast_def)

lemma wait_trace: "wait c tx h t s = (r, s1) \<Longrightarrow> trace s1 = trace s @ [Wait tx h t]"
  using call_trace [of "Wait tx h t" "wait_impl c tx h t" s] by (simp add: wait_def)

lemma on_exception_caught:
  "is_Exception e \<Longrightarrow>
     on_exception c tx e s =
       ((case fst (release_tx c tx s) of Inl e' \<Rightarrow> Inl e' | Inr _ \<Rightarrow> Inl e),
        snd (release_tx c tx s))"
  by (simp add: on_exception_def split: prod.splits sum.splits)

lemma on_exception_passed: "\<not> is_Exception e \<Longrightarrow> on_exception c tx e s = (Inl e, s)"
  by (simp add: on_exception_def)

lemma preview_unfold:
  "maybe_broadcast_or_release c tx blocking True s =
     (map_sum id Some (fst (release_tx c tx s)), snd (release_tx c tx s))"
  by (cases "release_tx c tx s") (simp add: maybe_broadcast_or_release_def split: sum.splits)

subsection \<open>\<open>maybe_broadcast_or_release\<close>\<close>

text \<open>
  Claim C9, as the code has it. Under \<open>preview\<close> the function is \<open>release_tx\<close>: its
  outcome is that of the release, and the one call it makes is the release of the
  transaction's input outputs, so no broadcast is attempted. Without \<open>preview\<close>, when
  \<open>broadcast\<close> raises an exception \<open>e\<close> that is an instance of \<open>Exception\<close>, the calls made
  are the broadcast and then the release of the input outputs, and the function raises:
  \<open>e\<close> itself when the release returns, the release's own exception when the release
  raises. The same holds when \<open>broadcast\<close> returns, \<open>blocking\<close> is set and \<open>wait\<close> (called
  with \<open>height = -1\<close>, \<open>timeout = None\<close>) raises such an \<open>e\<close>.
\<close>

theorem maybe_broadcast_or_release_releases:
  "(fst (maybe_broadcast_or_release c tx blocking True s)
        = map_sum id Some (fst (release_tx c tx s))
      \<and> trace (snd (maybe_broadcast_or_release c tx blocking True s))
        = trace s @ [ReleaseOutputs (input_txos tx)])
   \<and> (\<forall>e s1. broadcast c tx s = (Inl e, s1) \<and> is_Exception e \<longrightarrow>
        trace (snd (maybe_broadcast_or_release c tx blocking False s))
          = trace s @ [Broadcast tx, ReleaseOutputs (input_txos tx)]
        \<and> fst (maybe_broadcast_or_release c tx blocking False s)
          = (case fst (release_tx c tx s1) of Inl e' \<Rightarrow> Inl e' | Inr r \<Rightarrow> Inl e))
   \<and> (\<forall>u s1 e s2. broadcast c tx s = (Inr u, s1) \<and> wait c tx (- 1) None s1 = (Inl e, s2)
          \<and> is_Exception e \<longrightarrow>
        trace (snd (maybe_broadcast_or_release c tx True False s))
          = trace s @ [Broadcast tx, Wait tx (- 1) None, ReleaseOutputs (input_txos tx)]
        \<and> fst (maybe_broadcast_or_release c tx True False s)
          = (case fst (release_tx c tx s2) of Inl e' \<Rightarrow> Inl e' | Inr r \<Rightarrow> Inl e))"
proof (intro conjI allI impI)
  show "fst (maybe_broadcast_or_release c tx blocking True s)
          = map_sum id Some (fst (release_tx c tx s))"
    by (simp add: preview_unfold)
  show "trace (snd (maybe_broadcast_or_release c tx blocking True s))
          = trace s @ [ReleaseOutputs (input_txos tx)]"
    by (simp add: preview_unfold release_tx_trace)
next
  fix e s1
  assume a: "broadcast c tx s = (Inl e, s1) \<and> is_Exception e"
  then have m: "maybe_broadcast_or_release c tx blocking False s = on_exception c tx e s1"
    by (simp add: maybe_broadcast_or_release_def)
  from a have t1: "trace s1 = trace s @ [Broadcast tx]"
    by (auto dest: broadcast_trace)
  show "trace (snd (maybe_broadcast_or_release c tx blocking False s))
          = trace s @ [Broadcast tx, ReleaseOutputs (input_txos tx)]"
    using a by (simp add: m on_exception_caught release_tx_trace t1)
  show "fst (maybe_broadcast_or_release c tx blocking False s)
          = (case fst (release_tx c tx s1) of Inl e' \<Rightarrow> Inl e' | Inr r \<Rightarrow> Inl e)"
    using a by (simp add: m on_exception_caught)
next
  fix u s1 e s2
  assume a: "broadcast c tx s = (Inr u, s1) \<and> wait c tx (- 1) None s1 = (Inl e, s2)
    \<and> is_Exception e"
  then have m: "maybe_broadcast_or_release c tx True False s = on_exception c tx e s2"
    by (simp add: maybe_broadcast_or_release_def)
  from a have t1: "trace s1 = trace s @ [Broadcast tx]"
    by (auto dest: broadcast_trace)
  from a have t2: "trace s2 = trace s1 @ [Wait tx (- 1) None]"
    by (auto dest: wait_trace)
  show "trace (snd (maybe_broadcast_or_release c tx True False s))
          = trace s @ [Broadcast tx, Wait tx (- 1) None, ReleaseOutputs (input_txos tx)]"
    using a by (simp add: m on_exception_caught release_tx_trace t1 t2)
  show "fst (maybe_broadcast_or_release c tx True False s)
          = (case fst (release_tx c tx s2) of Inl e' \<Rightarrow> Inl e' | Inr r \<Rightarrow> Inl e)"
    using a by (simp add: m on_exception_caught)
qed

text \<open>
  The theorem at the base class, whose \<open>broadcast\<close> raises \<open>NotImplementedError\<close>, and at a
  node whose \<open>broadcast\<close> returns and whose \<open>wait\<close> times out: in both the two input
  outputs of \<open>tx0\<close> are released and the exception of the failed call is raised.
\<close>

theorem maybe_broadcast_or_release_releases_witness:
  "broadcast base_service tx0 s0 = (Inl NotImplementedError, s0\<lparr>trace := [Broadcast tx0]\<rparr>)
   \<and> is_Exception NotImplementedError
   \<and> trace (snd (maybe_broadcast_or_release base_service tx0 False False s0))
       = [Broadcast tx0, ReleaseOutputs [txo_a, txo_b]]
   \<and> fst (maybe_broadcast_or_release base_service tx0 False False s0) = Inl NotImplementedError
   \<and> broadcast slow_node tx0 s0 = (Inr (), s0\<lparr>trace := [Broadcast tx0]\<rparr>)
   \<and> wait slow_node tx0 (- 1) None (s0\<lparr>trace := [Broadcast tx0]\<rparr>)
       = (Inl TimeoutError, s0\<lparr>trace := [Broadcast tx0, Wait tx0 (- 1) None]\<rparr>)
   \<and> is_Exception TimeoutError
   \<and> trace (snd (maybe_broadcast_or_release slow_node tx0 True False s0))
       = [Broadcast tx0, Wait tx0 (- 1) None, ReleaseOutputs [txo_a, txo_b]]
   \<and> fst (maybe_broadcast_or_release slow_node tx0 True False s0) = Inl TimeoutError"
proof -
  have b1: "broadcast base_service tx0 s0
      = (Inl NotImplementedError, s0\<lparr>trace := [Broadcast tx0]\<rparr>)"
    by (simp add: call_defs base_service_def s0_def)
  have e1: "is_Exception NotImplementedError"
    by (simp add: NotImplementedError_def)
  have r1: "fst (release_tx base_service tx0 (s0\<lparr>trace := [Broadcast tx0]\<rparr>)) = Inr 2"
    by (simp add: call_defs base_service_def s0_def tx0_def)
  have b2: "broadcast slow_node tx0 s0 = (Inr (), s0\<lparr>trace := [Broadcast tx0]\<rparr>)"
    by (simp add: call_defs slow_node_def base_service_def s0_def)
  have w2: "wait slow_node tx0 (- 1) None (s0\<lparr>trace := [Broadcast tx0]\<rparr>)
       = (Inl TimeoutError, s0\<lparr>trace := [Broadcast tx0, Wait tx0 (- 1) None]\<rparr>)"
    by (simp add: call_defs slow_node_def base_service_def s0_def)
  have e2: "is_Exception TimeoutError"
    by (simp add: TimeoutError_def)
  have r2: "fst (release_tx slow_node tx0
      (s0\<lparr>trace := [Broadcast tx0, Wait tx0 (- 1) None]\<rparr>)) = Inr 2"
    by (simp add: call_defs slow_node_def base_service_def s0_def tx0_def)
  have i: "input_txos tx0 = [txo_a, txo_b]" "trace s0 = []"
    by (simp_all add: input_txos_def tx0_def s0_def)
  note t = maybe_broadcast_or_release_releases
  from t [of base_service tx0 False s0] b1 e1 r1 t [of slow_node tx0 True s0] b2 w2 e2 r2
  show ?thesis by (simp add: i)
qed

text \<open>
  The claim as written speaks of any exception, and of a release that precedes the
  re-raising of that same exception. \<open>KeyboardInterrupt\<close> is no instance of \<open>Exception\<close>:
  when \<open>broadcast\<close> raises it, \<open>except Exception\<close> does not match, and the function raises
  it with the broadcast as its only call, so nothing is released. And on a service whose
  \<open>broadcast\<close> raises \<open>NotImplementedError\<close> and whose database then fails to release, the
  function raises the database's \<open>OperationalError\<close>, not the exception of the broadcast,
  and the database has released nothing.
\<close>

theorem maybe_broadcast_or_release_counterexample:
  "fst (broadcast interrupted_node tx0 s0) = Inl KeyboardInterrupt
   \<and> maybe_broadcast_or_release interrupted_node tx0 False False s0
     = (Inl KeyboardInterrupt, \<lparr>trace = [Broadcast tx0], world = 0\<rparr>)
   \<and> fst (broadcast locked_db_node tx0 s0) = Inl NotImplementedError
   \<and> maybe_broadcast_or_release locked_db_node tx0 False False s0
     = (Inl OperationalError,
        \<lparr>trace = [Broadcast tx0, ReleaseOutputs [txo_a, txo_b]], world = 0\<rparr>)"
  by (simp add: maybe_broadcast_or_release_def on_exception_def call_defs interrupted_node_def
      locked_db_node_def base_service_def s0_def tx0_def KeyboardInterrupt_def
      NotImplementedError_def OperationalError_def)

text \<open>
  In general an exception of \<open>broadcast\<close> that is no instance of \<open>Exception\<close> leaves the
  function at once. A cancellation of the broadcast therefore releases the inputs under
  Python 3.7, where \<open>CancelledError\<close> is an \<open>Exception\<close>, and does not from 3.8 on.
\<close>

lemma maybe_broadcast_or_release_passes:
  "broadcast c tx s = (Inl e, s1) \<Longrightarrow> \<not> is_Exception e \<Longrightarrow>
     maybe_broadcast_or_release c tx blocking False s = (Inl e, s1)"
  by (simp add: maybe_broadcast_or_release_def on_exception_passed)

lemma cancelled_broadcast_py37:
  "maybe_broadcast_or_release (cancelled_node CancelledError_py37) tx0 False False s0
     = (Inl CancelledError_py37,
        \<lparr>trace = [Broadcast tx0, ReleaseOutputs [txo_a, txo_b]], world = 2\<rparr>)"
  by (simp add: maybe_broadcast_or_release_def on_exception_def call_defs cancelled_node_def
      base_service_def s0_def tx0_def CancelledError_py37_def)

lemma cancelled_broadcast_py38:
  "maybe_broadcast_or_release (cancelled_node CancelledError_py38) tx0 False False s0
     = (Inl CancelledError_py38, \<lparr>trace = [Broadcast tx0], world = 0\<rparr>)"
  by (simp add: maybe_broadcast_or_release_def on_exception_def call_defs cancelled_node_def
      base_service_def s0_def CancelledError_py38_def)

subsection \<open>\<open>resolve_collection\<close>\<close>

lemma first_with_claim_id_find:
  "first_with_claim_id cid rs = List.find (\<lambda>t. claim_id t = cid) rs"
  by (induction rs) simp_all

lemma collect_claims_map:
  "collect_claims cids rs claims = claims @ map (\<lambda>cid. first_with_claim_id cid rs) cids"
  by (induction cids arbitrary: claims) simp_all

lemma take_min_len: "take (min (length ys) n) ys = take n ys"
  by (simp add: min_def)

lemma py_slice_nonneg:
  assumes "0 \<le> a" "0 \<le> p"
  shows "py_slice xs a (p + a) = take (nat p) (drop (nat a) xs)"
proof -
  have lo: "slice_bound (length xs) a = min (length xs) (nat a)"
    using assms by (simp add: slice_bound_def)
  have hi: "slice_bound (length xs) (p + a) = min (length xs) (nat p + nat a)"
    using assms by (simp add: slice_bound_def nat_add_distrib)
  show ?thesis
  proof (cases "length xs \<le> nat a")
    case True
    then show ?thesis by (simp add: py_slice_def lo hi)
  next
    case False
    then have l: "min (length xs) (nat a) = nat a"
      by simp
    from False have "min (length xs) (nat p + nat a) - nat a
        = min (length (drop (nat a) xs)) (nat p)"
      unfolding length_drop min_def by (simp split: if_splits) linarith
    then have "py_slice xs a (p + a)
        = take (min (length (drop (nat a) xs)) (nat p)) (drop (nat a) xs)"
      by (simp only: py_slice_def lo hi l Let_def)
    then show ?thesis
      by (simp only: take_min_len)
  qed
qed

text \<open>
  Claim C10, as the code has it. \<open>claim_ids\<close> is the slice
  \<open>ids[offset:page_size+offset]\<close>, which for non-negative \<open>offset\<close> and \<open>page_size\<close> is the
  first \<open>page_size\<close> ids after skipping \<open>offset\<close> of them. When the claim search returns
  \<open>resolve_results\<close>, the result has one entry for each id of the slice, in the order of
  the slice: the first element of \<open>resolve_results\<close> whose \<open>claim_id\<close> is that id, or
  \<open>None\<close> when there is none. When the claim search raises an exception that is an
  instance of \<open>Exception\<close> and no \<open>CancelledError\<close>, the result is the empty list.
\<close>

theorem resolve_collection_entries:
  "(\<forall>rs n1 n2 n3 s'.
       claim_search c (py_slice ids offset (page_size + offset)) s = (Inr (rs, n1, n2, n3), s')
       \<longrightarrow>
       resolve_collection c ids offset page_size s =
         (Inr (map (\<lambda>cid. List.find (\<lambda>t. claim_id t = cid) rs)
                 (py_slice ids offset (page_size + offset))), s'))
   \<and> (\<forall>err s'.
       claim_search c (py_slice ids offset (page_size + offset)) s = (Inl err, s')
         \<and> is_Exception err \<and> \<not> is_CancelledError err \<longrightarrow>
       fst (resolve_collection c ids offset page_size s) = Inr [])
   \<and> (0 \<le> offset \<and> 0 \<le> page_size \<longrightarrow>
       py_slice ids offset (page_size + offset) = take (nat page_size) (drop (nat offset) ids))"
  by (simp add: resolve_collection_def collect_claims_map first_with_claim_id_find
      py_slice_nonneg)

text \<open>
  The theorem on a collection of five ids, read from offset 1 with page size 3. The
  node's search returns three outputs, two of them of claim \<open>a\<close>: the entry for \<open>a\<close> is
  the first of the two, \<open>zz\<close> has no entry, and \<open>b\<close> is found although it comes first in
  the search result. On the base class the lookup of \<open>claim_search\<close> raises
  \<open>AttributeError\<close> before any call, and the result is empty.
\<close>

theorem resolve_collection_entries_witness:
  "py_slice [''x'', ''a'', ''zz'', ''b'', ''c''] 1 (3 + 1) = [''a'', ''zz'', ''b'']
   \<and> claim_search indexing_node [''a'', ''zz'', ''b''] s0
       = (Inr ([txo_b, txo_a, txo_a2], 3, 0, 0), s0\<lparr>trace := [ClaimSearch [''a'', ''zz'', ''b'']]\<rparr>)
   \<and> resolve_collection indexing_node [''x'', ''a'', ''zz'', ''b'', ''c''] 1 3 s0
       = (Inr [Some txo_a, None, Some txo_b], s0\<lparr>trace := [ClaimSearch [''a'', ''zz'', ''b'']]\<rparr>)
   \<and> claim_search base_service [''a'', ''zz'', ''b''] s0 = (Inl AttributeError, s0)
   \<and> is_Exception AttributeError \<and> \<not> is_CancelledError AttributeError
   \<and> fst (resolve_collection base_service [''x'', ''a'', ''zz'', ''b'', ''c''] 1 3 s0) = Inr []
   \<and> (0::int) \<le> 1 \<and> (0::int) \<le> 3
   \<and> py_slice [''x'', ''a'', ''zz'', ''b'', ''c''] 1 (3 + 1)
       = take (nat 3) (drop (nat 1) [''x'', ''a'', ''zz'', ''b'', ''c''])"
proof -
  have sl: "py_slice [''x'', ''a'', ''zz'', ''b'', ''c''] 1 (3 + 1) = [''a'', ''zz'', ''b'']"
    by (simp add: py_slice_def slice_bound_def)
  have c1: "claim_search indexing_node [''a'', ''zz'', ''b''] s0
       = (Inr ([txo_b, txo_a, txo_a2], 3, 0, 0), s0\<lparr>trace := [ClaimSearch [''a'', ''zz'', ''b'']]\<rparr>)"
    by (simp add: call_defs indexing_node_def base_service_def s0_def)
  have c2: "claim_search base_service [''a'', ''zz'', ''b''] s0 = (Inl AttributeError, s0)"
    by (simp add: claim_search_def base_service_def)
  have e: "is_Exception AttributeError" "\<not> is_CancelledError AttributeError"
    by (simp_all add: AttributeError_def)
  have f: "map (\<lambda>cid. List.find (\<lambda>t. claim_id t = cid) [txo_b, txo_a, txo_a2])
      [''a'', ''zz'', ''b''] = [Some txo_a, None, Some txo_b]"
    by (simp add: txo_a_def txo_b_def txo_a2_def)
  note t = resolve_collection_entries [where ids = "[''x'', ''a'', ''zz'', ''b'', ''c'']"
      and offset = 1 and page_size = 3 and s = s0]
  from t [of indexing_node] t [of base_service] c1 c2 e f
  show ?thesis by (simp add: sl)
qed

text \<open>
  The claim as written speaks of any exception but a cancellation. When the claim search
  raises \<open>KeyboardInterrupt\<close>, which is neither a cancellation nor an instance of
  \<open>Exception\<close>, the handler does not match and \<open>resolve_collection\<close> raises it: nothing is
  logged and no list is returned.
\<close>

theorem resolve_collection_counterexample:
  "fst (claim_search interrupted_node [''a''] s0) = Inl KeyboardInterrupt
   \<and> \<not> is_CancelledError KeyboardInterrupt
   \<and> resolve_collection interrupted_node [''a'', ''b''] 0 1 s0
     = (Inl KeyboardInterrupt, \<lparr>trace = [ClaimSearch [''a'']], world = 0\<rparr>)"
  by (simp add: resolve_collection_def py_slice_def slice_bound_def call_defs
      interrupted_node_def base_service_def s0_def KeyboardInterrupt_def)

text \<open>
  A cancellation of the claim search is raised to the caller, whether \<open>CancelledError\<close>
  is an \<open>Exception\<close> or not, and so is every exception that is no instance of
  \<open>Exception\<close>.
\<close>

lemma resolve_collection_raises:
  "claim_search c (py_slice ids offset (page_size + offset)) s = (Inl err, s') \<Longrightarrow>
     is_CancelledError err \<or> \<not> is_Exception err \<Longrightarrow>
     resolve_collection c ids offset page_size s = (Inl err, s')"
  by (auto simp: resolve_collection_def)

end
